theory Spec2Isabelle
  imports Complex_Main "HOL-Library.Multiset"
begin

text \<open>
  The indicator pipeline of the dashboard (\<open>app.py\<close>): the series fetcher
  \<open>fred_get_series\<close>, the transform engine \<open>compute_transform\<close> and the helper
  \<open>pct_change_latest\<close>, with the pandas operations they call. Both
  \<open>fred_get_series\<close> and \<open>compute_transform\<close> carry the decorator
  \<open>st.cache_data(ttl=60)\<close>; the embedding is of the functions' bodies.
\<close>

section \<open>Values of a float64 column\<close>

text \<open>
  The \<open>value\<close> column of a frame holds float64 numbers. What \<open>dropna\<close> removes and
  what Python's \<open>/\<close> raises on depends on the special values, so they are explicit:
  a value is a finite number, one of the two infinities, or NaN. Arithmetic on finite
  operands is taken exact (no rounding, no overflow to infinity) and the sign of a zero
  is not tracked; the special values follow IEEE 754 as numpy evaluates them.
\<close>

datatype float64 = Finite real | PosInf | NegInf | NaN

fun is_finite :: "float64 \<Rightarrow> bool" where
  "is_finite (Finite a) = True"
| "is_finite PosInf = False"
| "is_finite NegInf = False"
| "is_finite NaN = False"

text \<open>numpy's elementwise \<open>/\<close>: a zero divisor gives an infinity or NaN, no exception.\<close>

fun fdiv :: "float64 \<Rightarrow> float64 \<Rightarrow> float64" where
  "fdiv NaN y = NaN"
| "fdiv x NaN = NaN"
| "fdiv (Finite a) (Finite b) =
     (if b \<noteq> 0 then Finite (a / b)
      else if a = 0 then NaN
      else if 0 < a then PosInf else NegInf)"
| "fdiv (Finite a) PosInf = Finite 0"
| "fdiv (Finite a) NegInf = Finite 0"
| "fdiv PosInf (Finite b) = (if 0 \<le> b then PosInf else NegInf)"
| "fdiv NegInf (Finite b) = (if 0 \<le> b then NegInf else PosInf)"
| "fdiv PosInf PosInf = NaN"
| "fdiv PosInf NegInf = NaN"
| "fdiv NegInf PosInf = NaN"
| "fdiv NegInf NegInf = NaN"

fun fsub :: "float64 \<Rightarrow> float64 \<Rightarrow> float64" where
  "fsub NaN y = NaN"
| "fsub x NaN = NaN"
| "fsub (Finite a) (Finite b) = Finite (a - b)"
| "fsub (Finite a) PosInf = NegInf"
| "fsub (Finite a) NegInf = PosInf"
| "fsub PosInf PosInf = NaN"
| "fsub PosInf y = PosInf"
| "fsub NegInf NegInf = NaN"
| "fsub NegInf y = NegInf"

fun fmul :: "float64 \<Rightarrow> float64 \<Rightarrow> float64" where
  "fmul NaN y = NaN"
| "fmul x NaN = NaN"
| "fmul (Finite a) (Finite b) = Finite (a * b)"
| "fmul (Finite a) PosInf = (if a = 0 then NaN else if 0 < a then PosInf else NegInf)"
| "fmul (Finite a) NegInf = (if a = 0 then NaN else if 0 < a then NegInf else PosInf)"
| "fmul PosInf (Finite b) = (if b = 0 then NaN else if 0 < b then PosInf else NegInf)"
| "fmul NegInf (Finite b) = (if b = 0 then NaN else if 0 < b then NegInf else PosInf)"
| "fmul PosInf PosInf = PosInf"
| "fmul PosInf NegInf = NegInf"
| "fmul NegInf PosInf = NegInf"
| "fmul NegInf NegInf = PosInf"

section \<open>Frames\<close>

text \<open>
  A frame as \<open>fred_get_series\<close> builds it: rows in positional order, each with its index
  label and the three columns \<open>date\<close>, \<open>value\<close>, \<open>last_updated\<close>. A date is a
  datetime64 count on the time line (an integer; NaT does not occur, every date comes from
  a parsed string). The column \<open>value\<close> is the field \<open>val\<close>.
\<close>

record row =
  idx :: int
  date :: int
  val :: float64
  last_updated :: string

type_synonym frame = "row list"

text \<open>\<open>df.copy()\<close>: a new frame with the same rows.\<close>

definition df_copy :: "frame \<Rightarrow> frame" where
  "df_copy df = df"

text \<open>
  \<open>df.sort_values("date")\<close>: the rows in ascending order of \<open>date\<close>. pandas leaves the
  order of rows with equal dates to the sorting algorithm; the model keeps their order.
  The dates of a raw series are distinct, and then the sorted order is unique
  (\<open>sort_values_unique\<close> below).
\<close>

definition sort_values :: "frame \<Rightarrow> frame" where
  "sort_values df = sort_key date df"

text \<open>\<open>df.dropna(subset=["value"])\<close>: the rows whose value is NaN go, infinities stay.\<close>

definition dropna :: "frame \<Rightarrow> frame" where
  "dropna df = filter (\<lambda>r. val r \<noteq> NaN) df"

text \<open>\<open>s["value"]\<close> and \<open>s["value"] = vs\<close> for a series \<open>vs\<close> on the same index.\<close>

definition value_column :: "frame \<Rightarrow> float64 list" where
  "value_column df = map val df"

definition set_value_column :: "frame \<Rightarrow> float64 list \<Rightarrow> frame" where
  "set_value_column df vs = map2 (\<lambda>r v. r\<lparr>val := v\<rparr>) df vs"

section \<open>Series operations\<close>

text \<open>\<open>Series.shift(n)\<close> for \<open>n \<ge> 0\<close>: every value moves \<open>n\<close> positions down, NaN fills the top.\<close>

definition series_shift :: "nat \<Rightarrow> float64 list \<Rightarrow> float64 list" where
  "series_shift n xs = replicate (min n (length xs)) NaN @ take (length xs - n) xs"

text \<open>\<open>Series.ffill()\<close>: a NaN takes the last value before it that is not NaN, if any.\<close>

fun ffill_from :: "float64 \<Rightarrow> float64 list \<Rightarrow> float64 list" where
  "ffill_from prev [] = []"
| "ffill_from prev (x # xs) =
     (if x = NaN then prev # ffill_from prev xs else x # ffill_from x xs)"

definition ffill :: "float64 list \<Rightarrow> float64 list" where
  "ffill xs = ffill_from NaN xs"

text \<open>
  \<open>Series.pct_change(n)\<close> is \<open>data / data.shift(n) - 1\<close>, where \<open>data\<close> is the series
  forward-filled (the default \<open>fill_method\<close> of pandas 1 and 2; pandas 3 does not fill, and
  the two agree on a series without NaN).
\<close>

definition pct_change :: "nat \<Rightarrow> float64 list \<Rightarrow> float64 list" where
  "pct_change n xs =
     (let data = ffill xs; shifted = series_shift n data
      in map2 (\<lambda>x y. fsub (fdiv x y) (Finite 1)) data shifted)"

text \<open>\<open>Series.diff(n)\<close> is \<open>s - s.shift(n)\<close>.\<close>

definition series_diff :: "nat \<Rightarrow> float64 list \<Rightarrow> float64 list" where
  "series_diff n xs = map2 fsub xs (series_shift n xs)"

section \<open>The transform engine\<close>

text \<open>
  \<open>compute_transform(df, transform)\<close>, on the contents of the frames. \<open>None\<close> is
  Python's \<open>None\<close>. No branch of the source raises on a frame with the columns \<open>date\<close>
  and \<open>value\<close>, so the model has no error result.
\<close>

definition compute_transform :: "frame option \<Rightarrow> string \<Rightarrow> frame option" where
  "compute_transform df transform =
     (case df of
        None \<Rightarrow> None
      | Some d \<Rightarrow>
          let s = df_copy d;
              s = sort_values s;
              s = (if transform = ''yoy'' then
                     set_value_column s
                       (map (\<lambda>x. fmul x (Finite 100)) (pct_change 12 (value_column s)))
                   else if transform = ''mom_level_k'' then
                     set_value_column s
                       (map (\<lambda>x. fdiv x (Finite 1000)) (series_diff 1 (value_column s)))
                   else if transform = ''level_thous'' then
                     set_value_column s (map (\<lambda>x. fdiv x (Finite 1000)) (value_column s))
                   else if transform = ''level_millions'' then
                     set_value_column s (map (\<lambda>x. fdiv x (Finite 1000000)) (value_column s))
                   else if transform = ''level'' then s
                   else s)
          in Some (dropna s))"

text \<open>
  The callers' test for "no data" (\<open>series is None or series.empty\<close>, also the guard of
  \<open>latest_value\<close> and \<open>pct_change_latest\<close>).
\<close>

definition no_data :: "frame option \<Rightarrow> bool" where
  "no_data df = (case df of None \<Rightarrow> True | Some d \<Rightarrow> d = [])"

section \<open>The transform rules in the spec's words\<close>

text \<open>
  Following the spec (section 4.2), for comparison with \<open>compute_transform\<close>: the
  value that a transform kind puts at position \<open>t\<close> of the sorted series \<open>xs\<close>.
  Year-over-year is \<open>(value[t] / value[t-12] - 1) * 100\<close> and has no value (NaN) at
  the first twelve positions; the month-over-month difference is
  \<open>(value[t] - value[t-1]) / 1000\<close> and has none at the first; the two scalings divide
  each value; \<open>level\<close> leaves it. A name outside the five is read as \<open>level\<close>.
\<close>

definition spec_value_at :: "string \<Rightarrow> float64 list \<Rightarrow> nat \<Rightarrow> float64" where
  "spec_value_at transform xs t =
     (if transform = ''yoy'' then
        (if t < 12 then NaN
         else fmul (fsub (fdiv (xs ! t) (xs ! (t - 12))) (Finite 1)) (Finite 100))
      else if transform = ''mom_level_k'' then
        (if t < 1 then NaN else fdiv (fsub (xs ! t) (xs ! (t - 1))) (Finite 1000))
      else if transform = ''level_thous'' then fdiv (xs ! t) (Finite 1000)
      else if transform = ''level_millions'' then fdiv (xs ! t) (Finite 1000000)
      else xs ! t)"

section \<open>The transform engine on a store of frames\<close>

text \<open>
  The same function on objects: a store holds the frames, a reference is a position in
  it. \<open>copy\<close>, \<open>sort_values\<close> and \<open>dropna\<close> build a new frame; the assignment
  \<open>s["value"] = ...\<close> overwrites the frame that \<open>s\<close> refers to.
\<close>

type_synonym ref = nat

type_synonym store = "frame list"

definition alloc :: "store \<Rightarrow> frame \<Rightarrow> store \<times> ref" where
  "alloc h f = (h @ [f], length h)"

definition df_copy_st :: "store \<Rightarrow> ref \<Rightarrow> store \<times> ref" where
  "df_copy_st h r = alloc h (df_copy (h ! r))"

definition sort_values_st :: "store \<Rightarrow> ref \<Rightarrow> store \<times> ref" where
  "sort_values_st h r = alloc h (sort_values (h ! r))"

definition dropna_st :: "store \<Rightarrow> ref \<Rightarrow> store \<times> ref" where
  "dropna_st h r = alloc h (dropna (h ! r))"

definition setitem_value_st :: "store \<Rightarrow> ref \<Rightarrow> float64 list \<Rightarrow> store" where
  "setitem_value_st h r vs = h[r := set_value_column (h ! r) vs]"

definition compute_transform_st :: "store \<Rightarrow> ref option \<Rightarrow> string \<Rightarrow> store \<times> ref option" where
  "compute_transform_st h df transform =
     (case df of
        None \<Rightarrow> (h, None)
      | Some r \<Rightarrow>
          let (h, s) = df_copy_st h r;
              (h, s) = sort_values_st h s;
              h = (if transform = ''yoy'' then
                     setitem_value_st h s
                       (map (\<lambda>x. fmul x (Finite 100)) (pct_change 12 (value_column (h ! s))))
                   else if transform = ''mom_level_k'' then
                     setitem_value_st h s
                       (map (\<lambda>x. fdiv x (Finite 1000)) (series_diff 1 (value_column (h ! s))))
                   else if transform = ''level_thous'' then
                     setitem_value_st h s
                       (map (\<lambda>x. fdiv x (Finite 1000)) (value_column (h ! s)))
                   else if transform = ''level_millions'' then
                     setitem_value_st h s
                       (map (\<lambda>x. fdiv x (Finite 1000000)) (value_column (h ! s)))
                   else if transform = ''level'' then h
                   else h);
              (h, s) = dropna_st h s
          in (h, Some s))"

section \<open>The percent-change helper\<close>

text \<open>The exceptions that the helper, the parsers and the network raise.\<close>

datatype py_error = ZeroDivisionError | IndexError | ValueError | JSONDecodeError | RequestException

text \<open>Indexing a Python list: a negative index counts from the end, out of range raises.\<close>

definition py_getitem :: "'a list \<Rightarrow> int \<Rightarrow> py_error + 'a" where
  "py_getitem xs i =
     (if 0 \<le> i \<and> i < int (length xs) then Inr (xs ! nat i)
      else if i < 0 \<and> - int (length xs) \<le> i then Inr (xs ! nat (int (length xs) + i))
      else Inl IndexError)"

text \<open>
  \<open>/\<close> on two Python floats (the elements of \<open>to_list()\<close>): a zero divisor raises
  ZeroDivisionError, whatever the dividend; otherwise the IEEE quotient.
\<close>

definition py_truediv :: "float64 \<Rightarrow> float64 \<Rightarrow> py_error + float64" where
  "py_truediv x y = (if y = Finite 0 then Inl ZeroDivisionError else Inr (fdiv x y))"

text \<open>
  \<open>df.tail(n)\<close>: no row for \<open>n = 0\<close>, else \<open>df.iloc[-n:]\<close>, which is the last \<open>n\<close> rows
  for a positive \<open>n\<close> and all rows but the first \<open>-n\<close> for a negative one.
\<close>

definition df_tail :: "int \<Rightarrow> frame \<Rightarrow> frame" where
  "df_tail n df =
     (if n = 0 then []
      else if 0 < n then drop (length df - nat n) df
      else drop (nat (- n)) df)"

definition pct_change_latest :: "frame option \<Rightarrow> int \<Rightarrow> py_error + float64 option" where
  "pct_change_latest df periods =
     (case df of
        None \<Rightarrow> Inr None
      | Some d \<Rightarrow>
          if d = [] \<or> int (length d) \<le> periods then Inr None
          else
            let vals = value_column (df_tail (periods + 1) d) in
            (case py_getitem vals (- 1) of
               Inl e \<Rightarrow> Inl e
             | Inr a \<Rightarrow>
                (case py_getitem vals (- periods - 1) of
                   Inl e \<Rightarrow> Inl e
                 | Inr b \<Rightarrow>
                    (case py_truediv a b of
                       Inl e \<Rightarrow> Inl e
                     | Inr q \<Rightarrow> Inr (Some (fmul (fsub q (Finite 1)) (Finite 100)))))))"

section \<open>The series fetcher\<close>

text \<open>
  What \<open>requests.get\<close> returns: the status, the body text, and the body as JSON
  (\<open>None\<close> when \<open>r.json()\<close> raises). Of the JSON object the function reads the entries
  \<open>observations\<close> (records with the strings \<open>date\<close> and \<open>value\<close>) and
  \<open>realtime_end\<close>, each of which may be missing.
\<close>

record observation =
  obs_date :: string
  obs_value :: string

record payload =
  observations :: "observation list option"
  realtime_end :: "string option"

record response =
  status_code :: int
  body_text :: string
  json :: "payload option"

text \<open>
  \<open>fred_get_series(series_id, freq)\<close>. The parsers of pandas and the network are
  parameters: \<open>to_datetime\<close> is \<open>pd.to_datetime\<close> on one string (\<open>None\<close> when it
  raises), \<open>to_numeric\<close> is \<open>pd.to_numeric(errors="coerce")\<close> on one string (NaN when
  the string is no number), \<open>get\<close> is \<open>requests.get\<close> for the query of a series and a
  frequency (\<open>Inl\<close> when it raises). The message of \<open>st.error\<close> on a status other
  than 200 goes to the page and is not part of the result.
\<close>

definition fred_get_series ::
  "(string \<Rightarrow> int option) \<Rightarrow> (string \<Rightarrow> float64) \<Rightarrow> (string \<Rightarrow> string \<Rightarrow> py_error + response)
   \<Rightarrow> string \<Rightarrow> string \<Rightarrow> py_error + frame option" where
  "fred_get_series to_datetime to_numeric get series_id freq =
     (case get series_id freq of
        Inl e \<Rightarrow> Inl e
      | Inr r \<Rightarrow>
          if status_code r \<noteq> 200 then Inr None
          else
            (case json r of
               None \<Rightarrow> Inl JSONDecodeError
             | Some data \<Rightarrow>
                 let obs = (case observations data of None \<Rightarrow> [] | Some os \<Rightarrow> os) in
                 if obs = [] then Inr None
                 else
                   (case those (map (\<lambda>ob. to_datetime (obs_date ob)) obs) of
                      None \<Rightarrow> Inl ValueError
                    | Some dates \<Rightarrow>
                        let vals = map (\<lambda>ob. to_numeric (obs_value ob)) obs;
                            rows = map (\<lambda>(i, d, v). \<lparr>idx = int i, date = d, val = v, last_updated = []\<rparr>)
                                     (zip [0..<length obs] (zip dates vals));
                            rows = dropna rows;
                            stamp = (case realtime_end data of None \<Rightarrow> [] | Some e \<Rightarrow> e)
                        in Inr (Some (map (\<lambda>r. r\<lparr>last_updated := stamp\<rparr>) rows)))))"

section \<open>The cache around the fetcher\<close>






section \<open>Sample inputs\<close>

text \<open>
  Concrete frames and a concrete network and parsers, on which the theorems below are
  evaluated. \<open>obs_row i d v\<close> is the row with index label \<open>i\<close>, date \<open>d\<close> and the
  finite value \<open>v\<close>.
\<close>

definition obs_row :: "int \<Rightarrow> int \<Rightarrow> real \<Rightarrow> row" where
  "obs_row i d v = \<lparr>idx = i, date = d, val = Finite v, last_updated = ''2024-02-01''\<rparr>"

text \<open>Thirteen monthly values from 100 to 110, the latest month stored first.\<close>

definition cpi_13 :: frame where
  "cpi_13 =
     [obs_row 0 13 110, obs_row 1 1 100, obs_row 2 2 101, obs_row 3 3 102, obs_row 4 4 103,
      obs_row 5 5 104, obs_row 6 6 105, obs_row 7 7 106, obs_row 8 8 107, obs_row 9 9 108,
      obs_row 10 10 109, obs_row 11 11 109, obs_row 12 12 109]"

text \<open>Twelve monthly values.\<close>

definition cpi_12 :: frame where
  "cpi_12 =
     [obs_row 0 1 100, obs_row 1 2 101, obs_row 2 3 102, obs_row 3 4 103, obs_row 4 5 104,
      obs_row 5 6 105, obs_row 6 7 106, obs_row 7 8 107, obs_row 8 9 108, obs_row 9 10 109,
      obs_row 10 11 109, obs_row 11 12 109]"

text \<open>Thirteen monthly values, the first of them zero.\<close>

definition zero_ref_13 :: frame where
  "zero_ref_13 =
     [obs_row 0 1 0, obs_row 1 2 1, obs_row 2 3 1, obs_row 3 4 1, obs_row 4 5 1,
      obs_row 5 6 1, obs_row 6 7 1, obs_row 7 8 1, obs_row 8 9 1, obs_row 9 10 1,
      obs_row 10 11 1, obs_row 11 12 1, obs_row 12 13 5]"

text \<open>Three weekly counts, out of order.\<close>

definition claims_3 :: frame where
  "claims_3 = [obs_row 0 15 220000, obs_row 1 1 215000, obs_row 2 8 212000]"

text \<open>Four monthly readings, out of order, one of them NaN.\<close>

definition pmi_4 :: frame where
  "pmi_4 =
     [obs_row 0 3 51, obs_row 1 1 49,
      \<lparr>idx = 2, date = 2, val = NaN, last_updated = ''2024-02-01''\<rparr>, obs_row 3 4 52]"

text \<open>Two quarterly growth rates, the earlier one zero.\<close>

definition gdp_2 :: frame where
  "gdp_2 = [obs_row 0 1 0, obs_row 1 2 5]"

text \<open>Two monthly rates.\<close>

definition unrate_2 :: frame where
  "unrate_2 = [obs_row 0 1 4, obs_row 1 2 5]"

text \<open>
  Parsers for the sample response: a string of decimal digits is a number (and a day
  count), anything else is not.
\<close>

definition decimal :: "string \<Rightarrow> nat option" where
  "decimal s =
     (if s \<noteq> [] \<and> list_all (\<lambda>c. 48 \<le> (of_char c :: nat) \<and> (of_char c :: nat) \<le> 57) s
      then Some (foldl (\<lambda>n c. 10 * n + (of_char c - 48)) 0 s) else None)"

definition day_to_datetime :: "string \<Rightarrow> int option" where
  "day_to_datetime s = map_option int (decimal s)"

definition decimal_to_numeric :: "string \<Rightarrow> float64" where
  "decimal_to_numeric s = (case decimal s of None \<Rightarrow> NaN | Some n \<Rightarrow> Finite (real n))"

text \<open>
  A network that answers every query with status 200 and ten observations; the value of
  the fourth is \<open>.\<close>, the mark of a missing value.
\<close>

definition ten_observations :: "observation list" where
  "ten_observations =
     [\<lparr>obs_date = ''1'', obs_value = ''37''\<rparr>, \<lparr>obs_date = ''2'', obs_value = ''38''\<rparr>,
      \<lparr>obs_date = ''3'', obs_value = ''39''\<rparr>, \<lparr>obs_date = ''4'', obs_value = ''.''\<rparr>,
      \<lparr>obs_date = ''5'', obs_value = ''40''\<rparr>, \<lparr>obs_date = ''6'', obs_value = ''41''\<rparr>,
      \<lparr>obs_date = ''7'', obs_value = ''42''\<rparr>, \<lparr>obs_date = ''8'', obs_value = ''43''\<rparr>,
      \<lparr>obs_date = ''9'', obs_value = ''44''\<rparr>, \<lparr>obs_date = ''10'', obs_value = ''45''\<rparr>]"

definition stub_response :: response where
  "stub_response =
     \<lparr>status_code = 200, body_text = [],
      json = Some \<lparr>observations = Some ten_observations, realtime_end = Some ''2024-02-01''\<rparr>\<rparr>"

definition stub_get :: "string \<Rightarrow> string \<Rightarrow> py_error + response" where
  "stub_get series_id freq = Inr stub_response"

text \<open>The frame of the nine observations with a numeric value.\<close>

definition nine_points :: frame where
  "nine_points =
     [obs_row 0 1 37, obs_row 1 2 38, obs_row 2 3 39, obs_row 4 5 40, obs_row 5 6 41,
      obs_row 6 7 42, obs_row 7 8 43, obs_row 8 9 44, obs_row 9 10 45]"

section \<open>Facts about the series operations\<close>

lemma fdiv_NaN_right: "fdiv x NaN = NaN"
  by (cases x) simp_all

lemma length_series_shift: "length (series_shift n xs) = length xs"
  by (simp add: series_shift_def)

lemma nth_series_shift:
  "t < length xs \<Longrightarrow> series_shift n xs ! t = (if t < n then NaN else xs ! (t - n))"
  by (auto simp: series_shift_def nth_append)

lemma length_ffill_from: "length (ffill_from p xs) = length xs"
  by (induction xs arbitrary: p) simp_all

lemma length_ffill: "length (ffill xs) = length xs"
  by (simp add: ffill_def length_ffill_from)

lemma ffill_from_no_NaN: "NaN \<notin> set xs \<Longrightarrow> ffill_from p xs = xs"
  by (induction xs arbitrary: p) auto

lemma ffill_no_NaN: "NaN \<notin> set xs \<Longrightarrow> ffill xs = xs"
  by (simp add: ffill_def ffill_from_no_NaN)

lemma length_pct_change: "length (pct_change n xs) = length xs"
  by (simp add: pct_change_def Let_def length_ffill length_series_shift)

text \<open>The first \<open>n\<close> results of \<open>pct_change n\<close> are NaN, whatever the series holds.\<close>

lemma nth_pct_change_early:
  "t < length xs \<Longrightarrow> t < n \<Longrightarrow> pct_change n xs ! t = NaN"
  by (simp add: pct_change_def Let_def length_ffill length_series_shift nth_series_shift
      fdiv_NaN_right)

lemma nth_pct_change_late:
  "NaN \<notin> set xs \<Longrightarrow> t < length xs \<Longrightarrow> n \<le> t \<Longrightarrow>
   pct_change n xs ! t = fsub (fdiv (xs ! t) (xs ! (t - n))) (Finite 1)"
  by (simp add: pct_change_def Let_def ffill_no_NaN length_series_shift nth_series_shift)

lemma length_series_diff: "length (series_diff n xs) = length xs"
  by (simp add: series_diff_def length_series_shift)

lemma fsub_NaN_right: "fsub x NaN = NaN"
  by (cases x) simp_all

lemma nth_series_diff:
  "t < length xs \<Longrightarrow>
   series_diff n xs ! t = (if t < n then NaN else fsub (xs ! t) (xs ! (t - n)))"
  by (simp add: series_diff_def length_series_shift nth_series_shift fsub_NaN_right)

section \<open>Facts about frames\<close>

lemma set_value_column_nth:
  "length vs = length df \<Longrightarrow>
   set_value_column df vs = map (\<lambda>t. (df ! t)\<lparr>val := vs ! t\<rparr>) [0..<length df]"
  by (auto intro!: nth_equalityI simp: set_value_column_def)

lemma set_value_column_pointwise:
  assumes "length vs = length df" and "\<And>t. t < length df \<Longrightarrow> vs ! t = g t"
  shows "set_value_column df vs = map (\<lambda>t. (df ! t)\<lparr>val := g t\<rparr>) [0..<length df]"
  using set_value_column_nth [OF assms(1)] assms(2) by simp

lemma date_set_value_column:
  "length vs = length df \<Longrightarrow> map date (set_value_column df vs) = map date df"
  by (auto intro!: nth_equalityI simp: set_value_column_def)

lemma set_value_column_same: "set_value_column df (value_column df) = df"
  by (auto intro!: nth_equalityI simp: set_value_column_def value_column_def)

lemma sorted_sort_values: "sorted (map date (sort_values df))"
  by (simp add: sort_values_def)

lemma length_sort_values: "length (sort_values df) = length df"
  by (simp add: sort_values_def)

lemma set_sort_values: "set (sort_values df) = set df"
  by (simp add: sort_values_def)

lemma sort_values_sorted: "sorted (map date df) \<Longrightarrow> sort_values df = df"
  by (simp add: sort_values_def sort_key_id_if_sorted)

lemma sorted_dropna: "sorted (map date df) \<Longrightarrow> sorted (map date (dropna df))"
  by (simp add: dropna_def sorted_filter)

lemma dropna_idem: "dropna (dropna df) = dropna df"
  by (simp add: dropna_def)

lemma dropna_no_NaN: "\<forall>r\<in>set df. val r \<noteq> NaN \<Longrightarrow> dropna df = df"
  by (simp add: dropna_def)

lemma mset_dropna_sort_values: "mset (dropna (sort_values df)) = mset (dropna df)"
  by (simp add: dropna_def sort_values_def)

text \<open>
  With distinct dates there is one sorted arrangement of the rows, so every sorting
  algorithm returns what \<open>sort_values\<close> returns.
\<close>

lemma filter_same_key_distinct:
  "distinct (map f xs) \<Longrightarrow> k \<in> set xs \<Longrightarrow> filter (\<lambda>x. f k = f x) xs = [k]"
proof (induction xs)
  case Nil
  then show ?case by simp
next
  case (Cons a xs)
  show ?case
  proof (cases "k = a")
    case True
    have "filter (\<lambda>x. f a = f x) xs = []"
      using Cons.prems(1) by (auto simp: filter_empty_conv)
    with True show ?thesis by simp
  next
    case False
    with Cons.prems have "k \<in> set xs" "f k \<noteq> f a" by (auto simp: image_iff)
    with Cons show ?thesis by simp
  qed
qed

lemma sort_values_unique:
  assumes "distinct (map date df)" and "mset ys = mset df" and "sorted (map date ys)"
  shows "ys = sort_values df"
proof -
  have "mset (map date ys) = mset (map date df)"
    using assms(2) by (metis mset_map)
  then have dys: "distinct (map date ys)"
    using assms(1) by (metis mset_eq_imp_distinct_iff)
  have "sort_key date df = ys"
  proof (rule properties_for_sort_key)
    show "mset ys = mset df" by fact
    show "sorted (map date ys)" by fact
    fix k
    assume k: "k \<in> set ys"
    then have "k \<in> set df"
      using assms(2) by (metis mset_eq_setD)
    then have "filter (\<lambda>x. date k = date x) df = [k]"
      using assms(1) by (rule filter_same_key_distinct [rotated])
    moreover have "filter (\<lambda>x. date k = date x) ys = [k]"
      using dys k by (rule filter_same_key_distinct)
    ultimately show "filter (\<lambda>x. date k = date x) ys = filter (\<lambda>x. date k = date x) df"
      by simp
  qed
  then show ?thesis by (simp add: sort_values_def)
qed

text \<open>Positions whose value is NaN contribute nothing to \<open>dropna\<close>.\<close>

lemma dropna_upt_skip:
  assumes "\<And>t. t < k \<Longrightarrow> t < n \<Longrightarrow> val (f t) = NaN"
  shows "dropna (map f [0..<n]) = dropna (map f [k..<n])"
proof (cases "k \<le> n")
  case True
  then have "[0..<n] = [0..<k] @ [k..<n]"
    by (metis le_add_diff_inverse upt_add_eq_append zero_le)
  moreover have "filter (\<lambda>r. val r \<noteq> NaN) (map f [0..<k]) = []"
    using assms True by (auto simp: filter_empty_conv)
  ultimately show ?thesis by (simp add: dropna_def)
next
  case False
  then have "filter (\<lambda>r. val r \<noteq> NaN) (map f [0..<n]) = []"
    using assms by (auto simp: filter_empty_conv)
  with False show ?thesis by (simp add: dropna_def)
qed

section \<open>The branches of the transform engine\<close>

lemma compute_transform_Nil: "compute_transform (Some []) transform = Some []"
  by (simp add: compute_transform_def df_copy_def sort_values_def set_value_column_def
      dropna_def Let_def)

lemma compute_transform_yoy:
  "compute_transform (Some df) ''yoy'' =
     Some (dropna (set_value_column (sort_values df)
       (map (\<lambda>x. fmul x (Finite 100)) (pct_change 12 (value_column (sort_values df))))))"
  by (simp add: compute_transform_def df_copy_def Let_def)

lemma compute_transform_level:
  "compute_transform (Some df) ''level'' = Some (dropna (sort_values df))"
  by (simp add: compute_transform_def df_copy_def Let_def)

lemma compute_transform_other:
  "transform \<notin> {''yoy'', ''mom_level_k'', ''level_thous'', ''level_millions'', ''level''} \<Longrightarrow>
   compute_transform (Some df) transform = Some (dropna (sort_values df))"
  by (simp add: compute_transform_def df_copy_def Let_def)

text \<open>
  Every branch returns the sorted frame with a value column of the same length written
  over it (the old one, for \<open>level\<close> and an unknown name), NaN rows removed.
\<close>

lemma compute_transform_shape:
  "\<exists>vs. length vs = length df \<and>
     compute_transform (Some df) transform =
       Some (dropna (set_value_column (sort_values df) vs))"
proof -
  let ?s = "sort_values df"
  have len: "length (value_column ?s) = length df"
    by (simp add: value_column_def length_sort_values)
  consider "transform = ''yoy''" | "transform = ''mom_level_k''" | "transform = ''level_thous''"
    | "transform = ''level_millions''"
    | "transform \<notin> {''yoy'', ''mom_level_k'', ''level_thous'', ''level_millions''}"
    by blast
  then show ?thesis
  proof cases
    case 1
    then show ?thesis
      by (intro exI [of _ "map (\<lambda>x. fmul x (Finite 100)) (pct_change 12 (value_column ?s))"])
        (simp add: compute_transform_def df_copy_def Let_def length_pct_change len)
  next
    case 2
    then show ?thesis
      by (intro exI [of _ "map (\<lambda>x. fdiv x (Finite 1000)) (series_diff 1 (value_column ?s))"])
        (simp add: compute_transform_def df_copy_def Let_def length_series_diff len)
  next
    case 3
    then show ?thesis
      by (intro exI [of _ "map (\<lambda>x. fdiv x (Finite 1000)) (value_column ?s)"])
        (simp add: compute_transform_def df_copy_def Let_def len)
  next
    case 4
    then show ?thesis
      by (intro exI [of _ "map (\<lambda>x. fdiv x (Finite 1000000)) (value_column ?s)"])
        (simp add: compute_transform_def df_copy_def Let_def len)
  next
    case 5
    then show ?thesis
      by (intro exI [of _ "value_column ?s"])
        (simp add: compute_transform_def df_copy_def Let_def len set_value_column_same)
  qed
qed

lemma sorted_compute_transform:
  assumes "compute_transform (Some df) transform = Some out"
  shows "sorted (map date out)"
proof -
  obtain vs where vs: "length vs = length df"
    and eq: "compute_transform (Some df) transform =
      Some (dropna (set_value_column (sort_values df) vs))"
    using compute_transform_shape by blast
  have "sorted (map date (set_value_column (sort_values df) vs))"
    using vs by (simp add: date_set_value_column length_sort_values sorted_sort_values)
  then have "sorted (map date (dropna (set_value_column (sort_values df) vs)))"
    by (rule sorted_dropna)
  with assms eq show ?thesis by simp
qed

text \<open>
  The engine against the spec's rules: the output is the sorted frame with the rule's
  value at every position, less the rows where that value is NaN. (For \<open>yoy\<close> on a
  frame without NaN: \<open>pct_change\<close> fills a NaN forward before it divides.)
\<close>

lemma compute_transform_spec_values:
  assumes "transform = ''yoy'' \<Longrightarrow> \<forall>r\<in>set df. val r \<noteq> NaN"
  shows "compute_transform (Some df) transform =
    Some (filter (\<lambda>r. val r \<noteq> NaN)
      (map (\<lambda>t. (sort_values df ! t)
          \<lparr>val := spec_value_at transform (value_column (sort_values df)) t\<rparr>)
        [0..<length df]))"
proof -
  let ?s = "sort_values df"
  let ?xs = "value_column ?s"
  let ?g = "spec_value_at transform ?xs"
  have len: "length ?xs = length df" and ls: "length ?s = length df"
    by (simp_all add: value_column_def length_sort_values)
  have noNaN: "NaN \<notin> set ?xs" if "transform = ''yoy''"
    using assms [OF that] by (auto simp: value_column_def set_sort_values)
  have nth_xs: "?xs ! t = val (?s ! t)" if "t < length df" for t
    using that by (simp add: value_column_def ls)
  consider (yoy) "transform = ''yoy''" | (mom) "transform = ''mom_level_k''"
    | (thous) "transform = ''level_thous''" | (mill) "transform = ''level_millions''"
    | (other) "transform \<notin> {''yoy'', ''mom_level_k'', ''level_thous'', ''level_millions''}"
    by blast
  then have "\<exists>ws. compute_transform (Some df) transform = Some (dropna (set_value_column ?s ws))
      \<and> length ws = length ?s \<and> (\<forall>t<length ?s. ws ! t = ?g t)"
  proof cases
    case yoy
    let ?ws = "map (\<lambda>x. fmul x (Finite 100)) (pct_change 12 ?xs)"
    have "?ws ! t = ?g t" if "t < length ?s" for t
      using that noNaN [OF yoy] yoy
      by (simp add: ls len length_pct_change nth_pct_change_early nth_pct_change_late
          spec_value_at_def)
    then show ?thesis
      using yoy by (intro exI [of _ ?ws])
        (simp add: compute_transform_yoy length_pct_change len ls)
  next
    case mom
    let ?ws = "map (\<lambda>x. fdiv x (Finite 1000)) (series_diff 1 ?xs)"
    have "?ws ! t = ?g t" if "t < length ?s" for t
      using that mom
      by (simp add: ls len length_series_diff nth_series_diff spec_value_at_def)
    then show ?thesis
      using mom by (intro exI [of _ ?ws])
        (simp add: compute_transform_def df_copy_def Let_def length_series_diff len ls)
  next
    case thous
    let ?ws = "map (\<lambda>x. fdiv x (Finite 1000)) ?xs"
    have "?ws ! t = ?g t" if "t < length ?s" for t
      using that thous by (simp add: ls len spec_value_at_def)
    then show ?thesis
      using thous by (intro exI [of _ ?ws])
        (simp add: compute_transform_def df_copy_def Let_def len ls)
  next
    case mill
    let ?ws = "map (\<lambda>x. fdiv x (Finite 1000000)) ?xs"
    have "?ws ! t = ?g t" if "t < length ?s" for t
      using that mill by (simp add: ls len spec_value_at_def)
    then show ?thesis
      using mill by (intro exI [of _ ?ws])
        (simp add: compute_transform_def df_copy_def Let_def len ls)
  next
    case other
    have "?xs ! t = ?g t" if "t < length ?s" for t
      using that other by (simp add: spec_value_at_def)
    then show ?thesis
      using other by (intro exI [of _ ?xs])
        (simp add: compute_transform_def df_copy_def Let_def len ls set_value_column_same)
  qed
  then obtain ws where eq: "compute_transform (Some df) transform =
      Some (dropna (set_value_column ?s ws))"
    and lw: "length ws = length ?s" and pw: "\<And>t. t < length ?s \<Longrightarrow> ws ! t = ?g t"
    by blast
  have "set_value_column ?s ws = map (\<lambda>t. (?s ! t)\<lparr>val := ?g t\<rparr>) [0..<length ?s]"
    using lw pw by (rule set_value_column_pointwise)
  with eq show ?thesis by (simp add: dropna_def ls)
qed

text \<open>The object-level run builds three new frames and leaves the old ones alone.\<close>

lemma compute_transform_st_result:
  assumes "r < length h"
  shows "\<exists>h' r'. compute_transform_st h (Some r) transform = (h', Some r')
      \<and> take (length h) h' = h \<and> length h \<le> r' \<and> r' < length h'
      \<and> Some (h' ! r') = compute_transform (Some (h ! r)) transform"
  using assms
  by (simp add: compute_transform_st_def compute_transform_def df_copy_st_def sort_values_st_def
      dropna_st_def setitem_value_st_def alloc_def Let_def nth_append df_copy_def)

section \<open>Facts about the percent-change helper\<close>

lemma df_tail_pos: "df_tail (int N + 1) d = drop (length d - Suc N) d"
proof -
  have "nat (int N + 1) = Suc N" by arith
  then show ?thesis by (simp add: df_tail_def)
qed

lemma pct_change_latest_vals:
  assumes "N < length d"
  shows "py_getitem (value_column (df_tail (int N + 1) d)) (- 1) = Inr (val (d ! (length d - 1)))"
    and "py_getitem (value_column (df_tail (int N + 1) d)) (- int N - 1) =
      Inr (val (d ! (length d - 1 - N)))"
proof -
  have t: "df_tail (int N + 1) d = drop (length d - Suc N) d"
    by (rule df_tail_pos)
  show "py_getitem (value_column (df_tail (int N + 1) d)) (- 1) = Inr (val (d ! (length d - 1)))"
    using assms by (simp add: t py_getitem_def value_column_def Let_def)
  show "py_getitem (value_column (df_tail (int N + 1) d)) (- int N - 1) =
      Inr (val (d ! (length d - 1 - N)))"
    using assms by (simp add: t py_getitem_def value_column_def Let_def)
qed

section \<open>Facts about the series fetcher\<close>

lemma those_map_total:
  "\<forall>x\<in>set xs. f x \<noteq> None \<Longrightarrow> those (map f xs) = Some (map (\<lambda>x. the (f x)) xs)"
  by (induction xs) auto

lemma zip_upt_maps:
  "zip [0..<length xs] (zip (map a xs) (map b xs)) =
     map (\<lambda>(i, x). (i, a x, b x)) (zip [0..<length xs] xs)"
  by (auto intro!: nth_equalityI)

lemma map_snd_filter_zip:
  "length ks = length xs \<Longrightarrow>
   map snd (filter (\<lambda>p. Q (snd p)) (zip ks xs)) = filter Q xs"
  by (induction ks xs rule: list_induct2) simp_all

section \<open>Year-over-year change\<close>

text \<open>
  C1. For a raw series (distinct dates, no NaN among its values) the year-over-year
  transform sorts by date and returns, for each position \<open>t \<ge> 12\<close> of the sorted
  series, the point of that position with the value
  \<open>(value[t] / value[t-12] - 1) * 100\<close>, the lookback being twelve positions; the points
  of the first twelve positions are not in the output, which has at most
  \<open>length df - 12\<close> points. (A point whose value comes out as NaN is dropped by
  \<open>dropna\<close>, as for every transform.)
\<close>

theorem yoy_positional:
  assumes "\<forall>r\<in>set df. val r \<noteq> NaN" and "distinct (map date df)"
  shows "\<exists>out. compute_transform (Some df) ''yoy'' = Some out
    \<and> out = dropna (map (\<lambda>t. (sort_values df ! t)
        \<lparr>val := fmul (fsub (fdiv (val (sort_values df ! t)) (val (sort_values df ! (t - 12))))
                  (Finite 1)) (Finite 100)\<rparr>)
      [12..<length df])
    \<and> length out \<le> length df - 12"
proof -
  let ?s = "sort_values df"
  let ?xs = "value_column ?s"
  let ?ws = "map (\<lambda>x. fmul x (Finite 100)) (pct_change 12 ?xs)"
  let ?f = "\<lambda>t. (?s ! t)\<lparr>val := ?ws ! t\<rparr>"
  let ?g = "\<lambda>t. (?s ! t)\<lparr>val := fmul (fsub (fdiv (val (?s ! t)) (val (?s ! (t - 12))))
                  (Finite 1)) (Finite 100)\<rparr>"
  have len: "length ?xs = length df"
    by (simp add: value_column_def length_sort_values)
  have noNaN: "NaN \<notin> set ?xs"
    using assms(1) by (auto simp: value_column_def set_sort_values)
  have lws: "length ?ws = length ?s"
    by (simp add: length_pct_change len length_sort_values)
  have early: "val (?f t) = NaN" if "t < 12" "t < length df" for t
    using that by (simp add: length_pct_change len nth_pct_change_early)
  have late: "?f t = ?g t" if "12 \<le> t" "t < length df" for t
    using that noNaN
    by (simp add: length_pct_change len nth_pct_change_late value_column_def length_sort_values)
  have "set_value_column ?s ?ws = map ?f [0..<length df]"
    using set_value_column_nth [OF lws] by (simp add: length_sort_values)
  then have "dropna (set_value_column ?s ?ws) = dropna (map ?f [12..<length df])"
    using dropna_upt_skip [of 12 "length df" ?f] early by simp
  also have "map ?f [12..<length df] = map ?g [12..<length df]"
    using late by simp
  finally have eq: "compute_transform (Some df) ''yoy'' = Some (dropna (map ?g [12..<length df]))"
    by (simp add: compute_transform_yoy)
  have "length (dropna (map ?g [12..<length df])) \<le> length (map ?g [12..<length df])"
    unfolding dropna_def by (rule length_filter_le)
  then have "length (dropna (map ?g [12..<length df])) \<le> length df - 12"
    by simp
  with eq show ?thesis by blast
qed

theorem yoy_positional_witness:
  "list_all (\<lambda>r. val r \<noteq> NaN) cpi_13 \<and> distinct (map date cpi_13) \<and> length cpi_13 = 13
   \<and> sort_values cpi_13 ! 12 = obs_row 0 13 110 \<and> sort_values cpi_13 ! 0 = obs_row 1 1 100
   \<and> compute_transform (Some cpi_13) ''yoy'' = Some [obs_row 0 13 10]"
proof -
  have h: "\<forall>r\<in>set cpi_13. val r \<noteq> NaN"
    by (simp add: cpi_13_def obs_row_def)
  have l: "length cpi_13 = 13"
    by (simp add: cpi_13_def)
  have s: "sort_values cpi_13 =
     [obs_row 1 1 100, obs_row 2 2 101, obs_row 3 3 102, obs_row 4 4 103,
      obs_row 5 5 104, obs_row 6 6 105, obs_row 7 7 106, obs_row 8 8 107, obs_row 9 9 108,
      obs_row 10 10 109, obs_row 11 11 109, obs_row 12 12 109, obs_row 0 13 110]"
    by (simp add: sort_values_def cpi_13_def obs_row_def)
  have a: "list_all (\<lambda>r. val r \<noteq> NaN) cpi_13"
    using h by (simp add: list_all_iff)
  have d: "distinct (map date cpi_13)"
    by (simp add: cpi_13_def obs_row_def)
  have "compute_transform (Some cpi_13) ''yoy'' = Some [obs_row 0 13 10]"
    using yoy_positional [OF h d] by (simp add: s l dropna_def obs_row_def)
  with a d l show ?thesis by (simp add: s)
qed

section \<open>What the engine drops\<close>

text \<open>
  C2, as the code has it. For every input frame and every transform name, no point of
  the output has the value NaN; and the output is exactly the sorted frame with the
  transform's value at every position, less the points whose value is NaN (no reference
  twelve positions back, zero over zero). So a point whose transformed value is infinite
  (a non-zero value over a zero reference) is in the output, with the infinite value.
  (The exact form is for every name but \<open>yoy\<close> on a frame that holds NaN already.)
\<close>

theorem transform_output_not_nan:
  "\<exists>out. compute_transform (Some df) transform = Some out
     \<and> (\<forall>r\<in>set out. val r \<noteq> NaN)
     \<and> ((transform = ''yoy'' \<longrightarrow> (\<forall>r\<in>set df. val r \<noteq> NaN)) \<longrightarrow>
          out = filter (\<lambda>r. val r \<noteq> NaN)
                  (map (\<lambda>t. (sort_values df ! t)
                      \<lparr>val := spec_value_at transform (value_column (sort_values df)) t\<rparr>)
                    [0..<length df])
          \<and> (\<forall>t<length df.
                spec_value_at transform (value_column (sort_values df)) t = PosInf
                \<or> spec_value_at transform (value_column (sort_values df)) t = NegInf \<longrightarrow>
                (sort_values df ! t)
                   \<lparr>val := spec_value_at transform (value_column (sort_values df)) t\<rparr> \<in> set out))"
proof -
  let ?g = "spec_value_at transform (value_column (sort_values df))"
  let ?row = "\<lambda>t. (sort_values df ! t)\<lparr>val := ?g t\<rparr>"
  obtain vs where eq: "compute_transform (Some df) transform =
      Some (dropna (set_value_column (sort_values df) vs))"
    using compute_transform_shape by blast
  let ?out = "dropna (set_value_column (sort_values df) vs)"
  have nn: "\<forall>r\<in>set ?out. val r \<noteq> NaN"
    by (simp add: dropna_def)
  have exact: "?out = filter (\<lambda>r. val r \<noteq> NaN) (map ?row [0..<length df])
      \<and> (\<forall>t<length df. ?g t = PosInf \<or> ?g t = NegInf \<longrightarrow> ?row t \<in> set ?out)"
    if h: "transform = ''yoy'' \<longrightarrow> (\<forall>r\<in>set df. val r \<noteq> NaN)"
  proof -
    have "compute_transform (Some df) transform =
        Some (filter (\<lambda>r. val r \<noteq> NaN) (map ?row [0..<length df]))"
      using h by (intro compute_transform_spec_values) simp
    with eq have o: "?out = filter (\<lambda>r. val r \<noteq> NaN) (map ?row [0..<length df])"
      by simp
    have "?row t \<in> set ?out" if "t < length df" "?g t = PosInf \<or> ?g t = NegInf" for t
    proof -
      have "val (?row t) \<noteq> NaN" using that(2) by auto
      moreover have "?row t \<in> set (map ?row [0..<length df])" using that(1) by simp
      ultimately show ?thesis by (simp only: o set_filter) simp
    qed
    with o show ?thesis by blast
  qed
  from eq nn exact show ?thesis by blast
qed

theorem transform_output_not_nan_witness:
  "compute_transform (Some pmi_4) ''level_thous'' =
     Some [obs_row 1 1 (49 / 1000), obs_row 0 3 (51 / 1000), obs_row 3 4 (52 / 1000)]
   \<and> list_all (\<lambda>r. val r \<noteq> NaN)
       [obs_row 1 1 (49 / 1000), obs_row 0 3 (51 / 1000), obs_row 3 4 (52 / 1000)]
   \<and> list_all (\<lambda>r. val r \<noteq> NaN) zero_ref_13
   \<and> spec_value_at ''yoy'' (value_column (sort_values zero_ref_13)) 12 = PosInf
   \<and> compute_transform (Some zero_ref_13) ''yoy'' =
       Some [\<lparr>idx = 12, date = 13, val = PosInf, last_updated = ''2024-02-01''\<rparr>]"
proof -
  have e: "compute_transform (Some pmi_4) ''level_thous'' =
     Some [obs_row 1 1 (49 / 1000), obs_row 0 3 (51 / 1000), obs_row 3 4 (52 / 1000)]"
    by (simp add: compute_transform_def df_copy_def sort_values_def set_value_column_def
        value_column_def dropna_def pmi_4_def obs_row_def Let_def)
  have a: "list_all (\<lambda>r. val r \<noteq> NaN)
       [obs_row 1 1 (49 / 1000), obs_row 0 3 (51 / 1000), obs_row 3 4 (52 / 1000)]"
    using transform_output_not_nan [of pmi_4 "''level_thous''"] e
    by (auto simp: list_all_iff)
  have h: "\<forall>r\<in>set zero_ref_13. val r \<noteq> NaN"
    by (simp add: zero_ref_13_def obs_row_def)
  have l: "length zero_ref_13 = 13"
    by (simp add: zero_ref_13_def)
  have v: "spec_value_at ''yoy'' (value_column (sort_values zero_ref_13)) 12 = PosInf"
    by code_simp
  obtain out where o: "compute_transform (Some zero_ref_13) ''yoy'' = Some out"
    and m: "(sort_values zero_ref_13 ! 12)
        \<lparr>val := spec_value_at ''yoy'' (value_column (sort_values zero_ref_13)) 12\<rparr> \<in> set out"
    and x: "out = filter (\<lambda>r. val r \<noteq> NaN)
                  (map (\<lambda>t. (sort_values zero_ref_13 ! t)
                      \<lparr>val := spec_value_at ''yoy'' (value_column (sort_values zero_ref_13)) t\<rparr>)
                    [0..<length zero_ref_13])"
    using transform_output_not_nan [of zero_ref_13 "''yoy''"] h v l by auto
  have "out = [\<lparr>idx = 12, date = 13, val = PosInf, last_updated = ''2024-02-01''\<rparr>]"
    unfolding x by code_simp
  with o e a h v show ?thesis by (simp add: list_all_iff)
qed

text \<open>
  The claim as stated fails: a non-zero value over a zero reference twelve positions back
  gives an infinite year-over-year value, and the point is in the output.
\<close>

theorem transform_output_finite_counterexample:
  "compute_transform (Some zero_ref_13) ''yoy'' =
     Some [\<lparr>idx = 12, date = 13, val = PosInf, last_updated = ''2024-02-01''\<rparr>]
   \<and> \<not> is_finite (val \<lparr>idx = 12, date = 13, val = PosInf, last_updated = ''2024-02-01''\<rparr>)"
  by code_simp

section \<open>No data in, no data out\<close>

text \<open>
  C3. For every transform name, the engine applied to "no data" (\<open>None\<close>, or a frame
  without rows) returns "no data": \<open>None\<close> stays \<open>None\<close> and the empty frame stays
  empty. The source has no raising statement on this path and the model no error result.
\<close>

theorem no_data_propagates:
  "no_data df \<Longrightarrow> no_data (compute_transform df transform)"
proof (cases df)
  case None
  then show ?thesis by (simp add: compute_transform_def no_data_def)
next
  case (Some d)
  assume "no_data df"
  with Some have "d = []" by (simp add: no_data_def)
  with Some show ?thesis by (simp add: compute_transform_Nil no_data_def)
qed

theorem no_data_propagates_witness:
  "no_data None \<and> no_data (compute_transform None ''yoy'')
   \<and> no_data (Some []) \<and> no_data (compute_transform (Some []) ''mom_level_k'')"
  using no_data_propagates [of None "''yoy''"]
    no_data_propagates [of "Some []" "''mom_level_k''"]
  by (simp add: no_data_def)

section \<open>Percent change over N periods\<close>

text \<open>
  What the helper does, for a lookback count \<open>N\<close>: on a series of at most \<open>N\<close>
  points it returns \<open>None\<close> ("unavailable"); on a series of at least \<open>N + 1\<close> points
  whose value at position \<open>last - N\<close> is not zero it returns
  \<open>(value[last] / value[last-N] - 1) * 100\<close>; and where that value is zero the division
  of two Python floats raises ZeroDivisionError.
\<close>

lemma pct_change_latest_boundary:
  "(length d \<le> N \<longrightarrow> pct_change_latest (Some d) (int N) = Inr None)
   \<and> (N < length d \<and> val (d ! (length d - 1 - N)) \<noteq> Finite 0 \<longrightarrow>
        pct_change_latest (Some d) (int N) =
          Inr (Some (fmul (fsub (fdiv (val (d ! (length d - 1))) (val (d ! (length d - 1 - N))))
                       (Finite 1)) (Finite 100))))
   \<and> (N < length d \<and> val (d ! (length d - 1 - N)) = Finite 0 \<longrightarrow>
        pct_change_latest (Some d) (int N) = Inl ZeroDivisionError)"
proof (intro conjI impI)
  assume "length d \<le> N"
  then show "pct_change_latest (Some d) (int N) = Inr None"
    by (simp add: pct_change_latest_def)
next
  assume a: "N < length d \<and> val (d ! (length d - 1 - N)) \<noteq> Finite 0"
  then have ne: "d \<noteq> []" "\<not> int (length d) \<le> int N" by auto
  show "pct_change_latest (Some d) (int N) =
          Inr (Some (fmul (fsub (fdiv (val (d ! (length d - 1))) (val (d ! (length d - 1 - N))))
                       (Finite 1)) (Finite 100)))"
    using a ne pct_change_latest_vals [of N d]
    by (simp add: pct_change_latest_def Let_def py_truediv_def)
next
  assume a: "N < length d \<and> val (d ! (length d - 1 - N)) = Finite 0"
  then have ne: "d \<noteq> []" "\<not> int (length d) \<le> int N" by auto
  show "pct_change_latest (Some d) (int N) = Inl ZeroDivisionError"
    using a ne pct_change_latest_vals [of N d]
    by (simp add: pct_change_latest_def Let_def py_truediv_def)
qed

lemma pct_change_latest_boundary_example:
  "length unrate_2 = 2
   \<and> pct_change_latest (Some unrate_2) 2 = Inr None
   \<and> val (unrate_2 ! 0) \<noteq> Finite 0
   \<and> pct_change_latest (Some unrate_2) 1 = Inr (Some (Finite 25))"
proof -
  have l: "length unrate_2 = 2"
    by (simp add: unrate_2_def)
  have v: "val (unrate_2 ! 0) = Finite 4" "val (unrate_2 ! Suc 0) = Finite 5"
    by (simp_all add: unrate_2_def obs_row_def)
  from pct_change_latest_boundary [of unrate_2 2] pct_change_latest_boundary [of unrate_2 1]
  show ?thesis by (simp add: l v)
qed

text \<open>
  C4. On a series of at least \<open>N + 1\<close> points the helper is to return
  \<open>(value[last] / value[last-N] - 1) * 100\<close>. The code misses the zero reference: on
  the two points 0 and 5 with \<open>N = 1\<close> the guard passes and the division raises
  ZeroDivisionError, where the formula in the arithmetic of the value column, which the
  year-over-year path of the engine uses, gives plus infinity and no exception.
\<close>

theorem pct_change_latest_zero_reference:
  "length gdp_2 = 1 + 1 \<and> pct_change_latest (Some gdp_2) 1 = Inl ZeroDivisionError
   \<and> fmul (fsub (fdiv (val (gdp_2 ! 1)) (val (gdp_2 ! 0))) (Finite 1)) (Finite 100) = PosInf"
  by code_simp

section \<open>Too little history\<close>

text \<open>
  C5. The year-over-year transform of a series of fewer than 13 points is the empty
  series, whatever the values.
\<close>

theorem yoy_short_series_empty:
  assumes "length df < 13"
  shows "compute_transform (Some df) ''yoy'' = Some []"
proof -
  let ?s = "sort_values df"
  let ?xs = "value_column ?s"
  let ?ws = "map (\<lambda>x. fmul x (Finite 100)) (pct_change 12 ?xs)"
  let ?f = "\<lambda>t. (?s ! t)\<lparr>val := ?ws ! t\<rparr>"
  have len: "length ?xs = length df"
    by (simp add: value_column_def length_sort_values)
  have lws: "length ?ws = length ?s"
    by (simp add: length_pct_change len length_sort_values)
  have early: "val (?f t) = NaN" if "t < length df" for t
    using that assms by (simp add: length_pct_change len nth_pct_change_early)
  have "set_value_column ?s ?ws = map ?f [0..<length df]"
    using set_value_column_nth [OF lws] by (simp add: length_sort_values)
  then have "dropna (set_value_column ?s ?ws) = dropna (map ?f [length df..<length df])"
    using dropna_upt_skip [of "length df" "length df" ?f] early by simp
  then show ?thesis by (simp add: compute_transform_yoy dropna_def)
qed

theorem yoy_short_series_empty_witness:
  "length cpi_12 = 12 \<and> compute_transform (Some cpi_12) ''yoy'' = Some []"
proof -
  have l: "length cpi_12 = 12"
    by (simp add: cpi_12_def)
  then have "length cpi_12 < 13" by simp
  from yoy_short_series_empty [OF this] l show ?thesis by simp
qed

section \<open>The level transform\<close>

text \<open>
  C6. For every raw series \<open>s\<close> (distinct dates), the level transform applied to its
  own output returns that output again:
  \<open>transform (transform (s, level), level) = transform (s, level)\<close>. The output holds
  the points of \<open>s\<close> with their values unchanged (as a multiset, the rows of \<open>s\<close>
  whose value is not NaN).
\<close>

theorem level_idempotent:
  assumes "distinct (map date s)"
  shows "\<exists>out. compute_transform (Some s) ''level'' = Some out
     \<and> compute_transform (compute_transform (Some s) ''level'') ''level'' = Some out
     \<and> mset out = mset (dropna s)"
proof -
  have "sorted (map date (dropna (sort_values s)))"
    by (simp add: sorted_dropna sorted_sort_values)
  then have "sort_values (dropna (sort_values s)) = dropna (sort_values s)"
    by (rule sort_values_sorted)
  then have "compute_transform (compute_transform (Some s) ''level'') ''level'' =
      Some (dropna (sort_values s))"
    by (simp add: compute_transform_level dropna_idem)
  then show ?thesis
    by (simp add: compute_transform_level mset_dropna_sort_values)
qed

theorem level_idempotent_witness:
  "distinct (map date pmi_4)
   \<and> compute_transform (Some pmi_4) ''level'' = Some [obs_row 1 1 49, obs_row 0 3 51, obs_row 3 4 52]
   \<and> compute_transform (compute_transform (Some pmi_4) ''level'') ''level'' =
       Some [obs_row 1 1 49, obs_row 0 3 51, obs_row 3 4 52]"
proof -
  have e: "compute_transform (Some pmi_4) ''level'' =
      Some [obs_row 1 1 49, obs_row 0 3 51, obs_row 3 4 52]"
    by (simp add: compute_transform_level sort_values_def dropna_def pmi_4_def obs_row_def)
  have d: "distinct (map date pmi_4)"
    by (simp add: pmi_4_def obs_row_def)
  from level_idempotent [OF d] e d show ?thesis by auto
qed

section \<open>Order of the output, and the input left alone\<close>

text \<open>
  C7. For every frame in the store, sorted by date or not, and every transform name, the
  engine returns a new frame whose points are in ascending order of date, and every frame
  that was in the store before the call, the input among them, is unchanged after it: the
  assignment to the value column writes into the engine's own sorted copy.
\<close>

theorem transform_sorted_input_unchanged:
  assumes "r < length h"
  shows "\<exists>h' r'. compute_transform_st h (Some r) transform = (h', Some r')
      \<and> take (length h) h' = h \<and> h' ! r = h ! r \<and> length h \<le> r' \<and> r' < length h'
      \<and> Some (h' ! r') = compute_transform (Some (h ! r)) transform
      \<and> sorted (map date (h' ! r'))"
proof -
  obtain h' r' where run: "compute_transform_st h (Some r) transform = (h', Some r')"
    and old: "take (length h) h' = h" and new: "length h \<le> r'" "r' < length h'"
    and res: "Some (h' ! r') = compute_transform (Some (h ! r)) transform"
    using compute_transform_st_result [OF assms] by blast
  have "h' ! r = take (length h) h' ! r"
    using assms by simp
  then have same: "h' ! r = h ! r"
    by (simp add: old)
  have "sorted (map date (h' ! r'))"
    using res sorted_compute_transform [of "h ! r" transform "h' ! r'"] by simp
  with run old new res same show ?thesis by blast
qed

theorem transform_sorted_input_unchanged_witness:
  "(0::nat) < length [claims_3]
   \<and> compute_transform_st [claims_3] (Some 0) ''level_thous'' =
       ([claims_3, claims_3,
         [obs_row 1 1 215, obs_row 2 8 212, obs_row 0 15 220],
         [obs_row 1 1 215, obs_row 2 8 212, obs_row 0 15 220]], Some 3)
   \<and> sorted (map date [obs_row 1 1 215, obs_row 2 8 212, obs_row 0 15 220])"
proof -
  have e: "compute_transform_st [claims_3] (Some 0) ''level_thous'' =
       ([claims_3, claims_3,
         [obs_row 1 1 215, obs_row 2 8 212, obs_row 0 15 220],
         [obs_row 1 1 215, obs_row 2 8 212, obs_row 0 15 220]], Some 3)"
    by code_simp
  have "(0::nat) < length [claims_3]" by simp
  from transform_sorted_input_unchanged [OF this, of "''level_thous''"] e
  show ?thesis by auto
qed

section \<open>One bad value does not fail the fetch\<close>

text \<open>
  C8. For a response with status 200 whose observations all carry a readable date, the
  fetcher returns a frame and raises nothing: the frame holds, in order, exactly the
  observations whose value reads as a number, so each observation whose value does not
  (NaN after \<open>to_numeric\<close>) is left out alone. The number of points is the number of
  observations with a numeric value: nine for nine good values and one bad one.
\<close>

theorem fetch_drops_unparsable_points:
  assumes "get series_id freq = Inr r" and "status_code r = 200" and "json r = Some data"
    and "observations data = Some obs" and "obs \<noteq> []"
    and "\<forall>ob\<in>set obs. to_datetime (obs_date ob) \<noteq> None"
  shows "\<exists>out. fred_get_series to_datetime to_numeric get series_id freq = Inr (Some out)
      \<and> map (\<lambda>r. (Some (date r), val r)) out =
          map (\<lambda>ob. (to_datetime (obs_date ob), to_numeric (obs_value ob)))
            (filter (\<lambda>ob. to_numeric (obs_value ob) \<noteq> NaN) obs)
      \<and> length out = length (filter (\<lambda>ob. to_numeric (obs_value ob) \<noteq> NaN) obs)"
proof -
  let ?d = "\<lambda>ob. the (to_datetime (obs_date ob))"
  let ?v = "\<lambda>ob. to_numeric (obs_value ob)"
  let ?stamp = "case realtime_end data of None \<Rightarrow> [] | Some e \<Rightarrow> e"
  let ?mk = "\<lambda>(i, ob). \<lparr>idx = int i, date = ?d ob, val = ?v ob, last_updated = []\<rparr>"
  let ?out = "map (\<lambda>r. r\<lparr>last_updated := ?stamp\<rparr>)
     (dropna (map ?mk (zip [0..<length obs] obs)))"
  have th: "those (map (\<lambda>ob. to_datetime (obs_date ob)) obs) = Some (map ?d obs)"
    using assms(6) by (rule those_map_total)
  have rows: "map (\<lambda>(i, d, v). \<lparr>idx = int i, date = d, val = v, last_updated = []\<rparr>)
      (zip [0..<length obs] (zip (map ?d obs) (map ?v obs))) = map ?mk (zip [0..<length obs] obs)"
    by (simp add: zip_upt_maps case_prod_beta)
  have res: "fred_get_series to_datetime to_numeric get series_id freq = Inr (Some ?out)"
    using assms(1-5) by (simp add: fred_get_series_def th rows Let_def)
  have dn: "dropna (map ?mk (zip [0..<length obs] obs))
      = map ?mk (filter (\<lambda>p. ?v (snd p) \<noteq> NaN) (zip [0..<length obs] obs))"
    by (simp add: dropna_def filter_map comp_def case_prod_beta)
  have "map (\<lambda>r. (Some (date r), val r)) ?out
      = map (\<lambda>ob. (Some (?d ob), ?v ob))
          (map snd (filter (\<lambda>p. ?v (snd p) \<noteq> NaN) (zip [0..<length obs] obs)))"
    by (simp add: dn case_prod_beta)
  also have "\<dots> = map (\<lambda>ob. (Some (?d ob), ?v ob)) (filter (\<lambda>ob. ?v ob \<noteq> NaN) obs)"
    using map_snd_filter_zip [of "[0..<length obs]" obs "\<lambda>ob. ?v ob \<noteq> NaN"] by simp
  also have "\<dots> = map (\<lambda>ob. (to_datetime (obs_date ob), ?v ob)) (filter (\<lambda>ob. ?v ob \<noteq> NaN) obs)"
    using assms(6) by auto
  finally have pts: "map (\<lambda>r. (Some (date r), val r)) ?out =
      map (\<lambda>ob. (to_datetime (obs_date ob), ?v ob)) (filter (\<lambda>ob. ?v ob \<noteq> NaN) obs)" .
  have "length ?out = length (map (\<lambda>r. (Some (date r), val r)) ?out)" by simp
  also have "\<dots> = length (filter (\<lambda>ob. ?v ob \<noteq> NaN) obs)"
    by (simp only: pts length_map)
  finally have len: "length ?out = length (filter (\<lambda>ob. ?v ob \<noteq> NaN) obs)" .
  from res pts len show ?thesis by blast
qed

theorem fetch_drops_unparsable_points_witness:
  "length ten_observations = 10
   \<and> map (\<lambda>ob. decimal_to_numeric (obs_value ob)) ten_observations =
       [Finite 37, Finite 38, Finite 39, NaN, Finite 40, Finite 41, Finite 42, Finite 43,
        Finite 44, Finite 45]
   \<and> fred_get_series day_to_datetime decimal_to_numeric stub_get ''UNRATE'' ''m'' =
       Inr (Some nine_points)
   \<and> length nine_points = 9"
proof -
  have e: "fred_get_series day_to_datetime decimal_to_numeric stub_get ''UNRATE'' ''m'' =
      Inr (Some nine_points)"
    by code_simp
  have vals: "map (\<lambda>ob. decimal_to_numeric (obs_value ob)) ten_observations =
       [Finite 37, Finite 38, Finite 39, NaN, Finite 40, Finite 41, Finite 42, Finite 43,
        Finite 44, Finite 45]"
    by (simp add: ten_observations_def decimal_to_numeric_def decimal_def)
  have dates: "\<forall>ob\<in>set ten_observations. day_to_datetime (obs_date ob) \<noteq> None"
    by (simp add: ten_observations_def day_to_datetime_def decimal_def)
  have n: "length (filter (\<lambda>ob. decimal_to_numeric (obs_value ob) \<noteq> NaN) ten_observations) = 9"
    by (simp add: ten_observations_def decimal_to_numeric_def decimal_def)
  have ne: "ten_observations \<noteq> []" and l: "length ten_observations = 10"
    by (simp_all add: ten_observations_def)
  have "\<exists>out. fred_get_series day_to_datetime decimal_to_numeric stub_get ''UNRATE'' ''m'' =
         Inr (Some out) \<and> length out = 9"
    using fetch_drops_unparsable_points [of stub_get "''UNRATE''" "''m''" stub_response
        "\<lparr>observations = Some ten_observations, realtime_end = Some ''2024-02-01''\<rparr>"
        ten_observations day_to_datetime decimal_to_numeric] ne dates n
    by (auto simp: stub_get_def stub_response_def)
  with vals l e show ?thesis by auto
qed

section \<open>The cache's time-to-live\<close>



section \<open>Unknown transform names\<close>

text \<open>
  C10. For a frame (not \<open>None\<close>) and a transform name that is none of \<open>yoy\<close>,
  \<open>mom_level_k\<close>, \<open>level_thous\<close>, \<open>level_millions\<close>, \<open>level\<close>, the engine returns
  what it returns for \<open>level\<close>: never \<open>None\<close>, but the frame sorted by date with the
  values unchanged (rows whose value is NaN removed, as for every name). For a frame with
  rows and without NaN this is the whole sorted frame, which is not "no data". The
  source has no raising statement on this path and the model no error result.
\<close>

theorem unknown_transform_is_level:
  assumes "transform \<notin> {''yoy'', ''mom_level_k'', ''level_thous'', ''level_millions'', ''level''}"
  shows "compute_transform (Some df) transform = compute_transform (Some df) ''level''
    \<and> compute_transform (Some df) transform = Some (dropna (sort_values df))
    \<and> (df \<noteq> [] \<and> (\<forall>r\<in>set df. val r \<noteq> NaN) \<longrightarrow>
         compute_transform (Some df) transform = Some (sort_values df)
         \<and> \<not> no_data (compute_transform (Some df) transform))"
proof -
  have eq: "compute_transform (Some df) transform = Some (dropna (sort_values df))"
    using assms by (rule compute_transform_other)
  have full: "dropna (sort_values df) = sort_values df" if "\<forall>r\<in>set df. val r \<noteq> NaN"
    using that by (simp add: dropna_no_NaN set_sort_values)
  have "sort_values df \<noteq> []" if "df \<noteq> []"
    using that length_sort_values [of df] by auto
  with eq full show ?thesis
    by (simp add: compute_transform_level no_data_def)
qed

theorem unknown_transform_is_level_witness:
  "''log'' \<notin> {''yoy'', ''mom_level_k'', ''level_thous'', ''level_millions'', ''level''}
   \<and> claims_3 \<noteq> [] \<and> list_all (\<lambda>r. val r \<noteq> NaN) claims_3
   \<and> compute_transform (Some claims_3) ''log'' =
       Some [obs_row 1 1 215000, obs_row 2 8 212000, obs_row 0 15 220000]
   \<and> compute_transform (Some claims_3) ''level'' =
       Some [obs_row 1 1 215000, obs_row 2 8 212000, obs_row 0 15 220000]"
proof -
  have u: "''log'' \<notin> {''yoy'', ''mom_level_k'', ''level_thous'', ''level_millions'', ''level''}"
    by simp
  have s: "sort_values claims_3 = [obs_row 1 1 215000, obs_row 2 8 212000, obs_row 0 15 220000]"
    by (simp add: sort_values_def claims_3_def obs_row_def)
  have a: "\<forall>r\<in>set claims_3. val r \<noteq> NaN" and ne: "claims_3 \<noteq> []"
    by (simp_all add: claims_3_def obs_row_def)
  from unknown_transform_is_level [OF u, of claims_3] a ne s show ?thesis
    by (auto simp: list_all_iff)
qed

end
